theory Spec2Isabelle
  imports Main "HOL-Library.AList" "HOL-Library.Sublist"
begin

section \<open>Text\<close>


definition ascii_uppercase :: string where
  "ascii_uppercase = ''ABCDEFGHIJKLMNOPQRSTUVWXYZ''"

definition ascii_lowercase :: string where
  "ascii_lowercase = ''abcdefghijklmnopqrstuvwxyz''"

definition digits :: string where
  "digits = ''0123456789''"

definition isupper :: "char \<Rightarrow> bool" where
  "isupper c = (c \<in> set ascii_uppercase)"

definition islower :: "char \<Rightarrow> bool" where
  "islower c = (c \<in> set ascii_lowercase)"

definition isdigit :: "char \<Rightarrow> bool" where
  "isdigit c = (c \<in> set digits)"

text \<open>\<open>in\<close> on strings: \<open>sub in s\<close> holds when \<open>sub\<close> occurs in \<open>s\<close> as a contiguous run.\<close>

fun startswith :: "string \<Rightarrow> string \<Rightarrow> bool" where
  "startswith s [] = True"
| "startswith [] (p # ps) = False"
| "startswith (c # cs) (p # ps) = (c = p \<and> startswith cs ps)"

fun str_in :: "string \<Rightarrow> string \<Rightarrow> bool" where
  "str_in sub [] = (sub = [])"
| "str_in sub (c # cs) = (startswith (c # cs) sub \<or> str_in sub cs)"

definition endswith :: "string \<Rightarrow> string \<Rightarrow> bool" where
  "endswith s p = startswith (rev s) (rev p)"

definition lower_char :: "char \<Rightarrow> char" where
  "lower_char c = (case map_of (zip ascii_uppercase ascii_lowercase) c of
                     None \<Rightarrow> c | Some d \<Rightarrow> d)"

definition upper_char :: "char \<Rightarrow> char" where
  "upper_char c = (case map_of (zip ascii_lowercase ascii_uppercase) c of
                     None \<Rightarrow> c | Some d \<Rightarrow> d)"

text \<open>
  \<open>s.lower()\<close> for an ASCII text \<open>s\<close>: the letters \<open>A\<close> to \<open>Z\<close> become \<open>a\<close> to \<open>z\<close>. (Outside ASCII
  \<open>str.lower\<close> follows Unicode: the Kelvin sign becomes \<open>k\<close>, for instance.)
\<close>

definition lower :: "string \<Rightarrow> string" where
  "lower s = map lower_char s"

text \<open>\<open>sep.join(xs)\<close>\<close>

fun join :: "string \<Rightarrow> string list \<Rightarrow> string" where
  "join sep [] = []"
| "join sep [x] = x"
| "join sep (x # y # ys) = x @ sep @ join sep (y # ys)"


section \<open>Session state (src/session.py)\<close>

text \<open>
  A conversation is the dict \<open>{"name": ..., "history": [...]}\<close>; a history entry is the
  tuple \<open>(role, msg)\<close> of two strings. \<open>st.session_state.convos\<close> is a dict from
  conversation id to conversation, kept in insertion order: an association list, read with
  \<open>map_of\<close> and written with \<open>AList.update\<close> (an existing key keeps its place, a new key
  goes to the end).
\<close>

type_synonym message = "string \<times> string"

record chat =
  name :: string
  history :: "message list"

text \<open>
  What the handlers do that is not a change of \<open>st.session_state\<close> is recorded in a trace:
  a recursive entry into the password game, a call of \<open>mark_offtopic\<close>, and a prompt handed
  to \<open>generate_content_stream\<close>.
\<close>

datatype event = Reentered | Marked string | Prompted string

text \<open>
  \<open>st.session_state\<close>. The keys \<open>password_game_step\<close> and \<open>user_password\<close> are not set by
  \<open>ensure_session_state\<close>, so they may be absent (\<open>None\<close>). The two sources of chance are
  part of the state: \<open>uuids\<close> gives the results of \<open>str(uuid.uuid4())[:8]\<close> and \<open>coins\<close> the
  results of \<open>random.choice([True, False])\<close>, in the order of the calls. Writing the
  conversations to Firestore (\<open>save_convos\<close>) does not change \<open>st.session_state\<close> and is
  left out.
\<close>

record session_state =
  convos :: "(string \<times> chat) list"
  active_id :: "string option"
  in_password_game :: bool
  password_game_step :: "int option"
  user_password :: "string option"
  password_question_count :: int
  phishing_question_count :: int
  uuids :: "nat \<Rightarrow> string"
  uuid_calls :: nat
  coins :: "nat \<Rightarrow> bool"
  coin_calls :: nat
  trace :: "event list"

definition new_session :: "string \<Rightarrow> chat" where
  "new_session nm = \<lparr>name = nm, history = []\<rparr>"

definition create_new_chat :: "session_state \<Rightarrow> string \<times> session_state" where
  "create_new_chat s =
     (let sid = uuids s (uuid_calls s)
      in (sid, s\<lparr>convos := AList.update sid (new_session ''New Chat'') (convos s),
                 uuid_calls := Suc (uuid_calls s)\<rparr>))"

text \<open>\<open>st.session_state.active_id not in st.session_state.convos\<close>\<close>

definition active_missing :: "session_state \<Rightarrow> bool" where
  "active_missing s =
     (case active_id s of None \<Rightarrow> True | Some k \<Rightarrow> map_of (convos s) k = None)"

text \<open>
  \<open>active_session\<close> first repairs \<open>active_id\<close> (the first conversation, or a new one when
  there is none) and then returns \<open>convos[active_id]\<close>. \<open>heal\<close> is the repair.
\<close>

definition heal :: "session_state \<Rightarrow> session_state" where
  "heal s =
     (if active_missing s then
        (case convos s of
           (k, c) # rest \<Rightarrow> s\<lparr>active_id := Some k\<rparr>
         | [] \<Rightarrow> (case create_new_chat s of (new_id, s') \<Rightarrow> s'\<lparr>active_id := Some new_id\<rparr>))
      else s)"

definition active_session :: "session_state \<Rightarrow> chat option \<times> session_state" where
  "active_session s =
     (let s1 = heal s
      in (case active_id s1 of None \<Rightarrow> None | Some k \<Rightarrow> map_of (convos s1) k, s1))"

definition active_history :: "session_state \<Rightarrow> message list \<times> session_state" where
  "active_history s =
     (case active_session s of (c, s1) \<Rightarrow> (case c of None \<Rightarrow> [] | Some ch \<Rightarrow> history ch, s1))"

text \<open>
  \<open>append_msg\<close> appends to the list object of the active conversation and stores it back.
\<close>

definition append_msg :: "string \<Rightarrow> string \<Rightarrow> session_state \<Rightarrow> session_state" where
  "append_msg role msg s =
     (let s1 = heal s
      in (case active_id s1 of
            None \<Rightarrow> s1
          | Some k \<Rightarrow>
              s1\<lparr>convos := AList.map_entry k (\<lambda>c. c\<lparr>history := history c @ [(role, msg)]\<rparr>)
                              (convos s1)\<rparr>))"


section \<open>The password game (src/game.py)\<close>

text \<open>
  The three tests of a passphrase. On an ASCII passphrase \<open>c.isupper()\<close> holds of the
  letters \<open>A\<close> to \<open>Z\<close> and \<open>c.isdigit()\<close> of the digits \<open>0\<close> to \<open>9\<close>; outside ASCII the program
  also counts the uppercase letters and the digits of Unicode, which the model does not.
  The symbols are the 19 characters of the class in \<open>has_symbol\<close>, all ASCII.
\<close>

definition has_uppercase :: "string \<Rightarrow> bool" where
  "has_uppercase password = list_ex isupper password"

definition has_number :: "string \<Rightarrow> bool" where
  "has_number password = list_ex isdigit password"

definition has_symbol :: "string \<Rightarrow> bool" where
  "has_symbol password = list_ex (\<lambda>c. c \<in> set ''!@#$%^&*(),.?:{}|<>'') password"

definition echo_text :: "string \<Rightarrow> string" where
  "echo_text user_msg =
     ''You entered: `'' @ user_msg @
     ''`.\<newline>*('' @
     [CHR 0xE2, CHR 0x9A, CHR 0xA0, CHR 0xEF, CHR 0xB8, CHR 0x8F] @
     '' **Safety Reminder**: This is a simulation using a fake practice password. '' @
     ''Never enter your real passwords here.)*\<newline>\<newline>''"

definition success_msg :: "string \<Rightarrow> string" where
  "success_msg user_msg =
     [CHR 0xF0, CHR 0x9F, CHR 0x8E, CHR 0x89] @
     '' **Congratulations!** You've created a strong password: `'' @ user_msg @
     ''`.\<newline>\<newline>It has:\<newline>'' @
     [CHR 0xE2, CHR 0x9C, CHR 0x85] @
     '' Uppercase letters\<newline>'' @
     [CHR 0xE2, CHR 0x9C, CHR 0x85] @
     '' Numbers\<newline>'' @
     [CHR 0xE2, CHR 0x9C, CHR 0x85] @
     '' Special symbols\<newline>\<newline>*('' @
     [CHR 0xE2, CHR 0x9A, CHR 0xA0, CHR 0xEF, CHR 0xB8, CHR 0x8F] @
     '' **Final Note**: Because you typed this password into a chat interface, '' @
     ''you should consider it 'burned'. '' @
     ''Do not use this exact password for your real accounts. '' @
     ''Use the structure you learned here to create a new one!)*\<newline>\<newline>'' @
     ''**Great job! The game is now over. '' @
     ''You can continue asking questions about cybersecurity now.**''"

text \<open>The replies of the game, as the f-strings of the source build them.\<close>

definition reply_start :: string where
  "reply_start = ''Great! Let's start. Please enter a simple passphrase to begin.''"

definition reply_add_upper :: "string \<Rightarrow> string" where
  "reply_add_upper user_msg =
     echo_text user_msg @
     '' Good start! Now, try adding at least one **uppercase letter** '' @
     ''to make it stronger.''"

definition reply_has_upper :: "string \<Rightarrow> string" where
  "reply_has_upper user_msg =
     echo_text user_msg @
     '' Excellent! Your password already has an uppercase letter. '' @
     ''Let's move to the next step.''"

definition reply_upper_done :: "string \<Rightarrow> string" where
  "reply_upper_done user_msg =
     echo_text user_msg @
     '' Great job! The uppercase letter makes your password much '' @
     ''harder to guess. Now, let's add a **number**.''"

definition reply_upper_retry :: "string \<Rightarrow> string" where
  "reply_upper_retry user_msg =
     echo_text user_msg @
     '' Not quite. Remember to add at least one **uppercase letter**. '' @
     ''Give it another try!''"

definition reply_lost_upper :: "string \<Rightarrow> string" where
  "reply_lost_upper user_msg =
     echo_text user_msg @
     '' Oops! You added a number, but it looks like you lost the '' @
     ''**uppercase letter**. Please make sure your password has BOTH '' @
     ''an uppercase letter and a number.''"

definition reply_number_done :: "string \<Rightarrow> string" where
  "reply_number_done user_msg =
     echo_text user_msg @
     '' Awesome! Numbers add another layer of complexity. Finally, '' @
     ''let's add a **special symbol** like !, @, #, etc.''"

definition reply_number_retry :: "string \<Rightarrow> string" where
  "reply_number_retry user_msg =
     echo_text user_msg @
     '' Almost there! You still have the uppercase letter, '' @
     ''but don't forget to add a **number**.''"

definition reply_removed :: "string \<Rightarrow> string list \<Rightarrow> string" where
  "reply_removed user_msg missing_requirements =
     echo_text user_msg @
     '' You're adding a symbol, but it looks like you removed the **'' @
     join '' and '' missing_requirements @
     ''**! A strong password needs all three elements together.''"

definition reply_symbol_retry :: "string \<Rightarrow> string" where
  "reply_symbol_retry user_msg =
     echo_text user_msg @
     '' You're so close! You have the uppercase letter and number... '' @
     ''just add a **special symbol** (e.g., !, @, #, $) to finish!''"

text \<open>The terminating measure of the recursion: the steps still ahead of a state.\<close>

definition steps_ahead :: "session_state \<Rightarrow> nat" where
  "steps_ahead s =
     (case password_game_step s of
        None \<Rightarrow> 0
      | Some n \<Rightarrow> if n = 1 \<or> n = 2 then 2 else if n = 3 then 1 else 0)"

lemma heal_step [simp]: "password_game_step (heal s) = password_game_step s"
  by (simp add: heal_def create_new_chat_def Let_def split: list.splits prod.splits)

lemma append_msg_step [simp]:
  "password_game_step (append_msg role msg s) = password_game_step s"
  by (simp add: append_msg_def Let_def split: option.splits)

text \<open>
  \<open>handle_password_game\<close>. \<open>st.rerun()\<close> at the end of the outer call stops the script run:
  the handler returns the state it has reached.
\<close>

function handle_password_game :: "string \<Rightarrow> bool \<Rightarrow> session_state \<Rightarrow> session_state" where
  "handle_password_game user_msg is_recursive s =
     (let s0 = (if \<not> is_recursive then append_msg ''user'' user_msg s
                else s\<lparr>trace := trace s @ [Reentered]\<rparr>);
          step = (case password_game_step s0 of None \<Rightarrow> 0 | Some n \<Rightarrow> n)
      in
        if step = 0 then
          (append_msg ''assistant'' reply_start s0)\<lparr>password_game_step := Some 1\<rparr>
        else if step = 1 then
          (let s1 = s0\<lparr>user_password := Some user_msg\<rparr> in
           if \<not> has_uppercase user_msg then
             (append_msg ''assistant'' (reply_add_upper user_msg) s1)
             \<lparr>password_game_step := Some 2\<rparr>
           else
             (let s2 = (append_msg ''assistant'' (reply_has_upper user_msg) s1)
                       \<lparr>password_game_step := Some 3\<rparr>
              in if has_number user_msg then handle_password_game user_msg True s2 else s2))
        else if step = 2 then
          (let s1 = s0\<lparr>user_password := Some user_msg\<rparr> in
           if has_uppercase user_msg then
             (let s2 = (append_msg ''assistant'' (reply_upper_done user_msg) s1)
                       \<lparr>password_game_step := Some 3\<rparr>
              in if has_number user_msg then handle_password_game user_msg True s2 else s2)
           else append_msg ''assistant'' (reply_upper_retry user_msg) s1)
        else if step = 3 then
          (let s1 = s0\<lparr>user_password := Some user_msg\<rparr> in
           if \<not> has_uppercase user_msg then
             append_msg ''assistant'' (reply_lost_upper user_msg) s1
           else if has_number user_msg then
             (let s2 = (append_msg ''assistant'' (reply_number_done user_msg) s1)
                       \<lparr>password_game_step := Some 4\<rparr>
              in if has_symbol user_msg then handle_password_game user_msg True s2 else s2)
           else append_msg ''assistant'' (reply_number_retry user_msg) s1)
        else if step = 4 then
          (let s1 = s0\<lparr>user_password := Some user_msg\<rparr>;
               missing_requirements =
                 (if \<not> has_uppercase user_msg then [''uppercase letter''] else []) @
                 (if \<not> has_number user_msg then [''number''] else [])
           in
             if missing_requirements \<noteq> [] then
               append_msg ''assistant'' (reply_removed user_msg missing_requirements) s1
             else if has_symbol user_msg then
               (append_msg ''assistant'' (success_msg user_msg) s1)
               \<lparr>in_password_game := False,
                password_game_step := Some 0,
                password_question_count := 0\<rparr>
             else append_msg ''assistant'' (reply_symbol_retry user_msg) s1)
        else s0)"
  by pat_completeness auto
termination
  by (relation "measure (\<lambda>(user_msg, is_recursive, s). steps_ahead s)")
     (auto simp: steps_ahead_def split: option.splits if_splits)

declare handle_password_game.simps [simp del]

text \<open>The history of the active conversation, as \<open>active_history()\<close> returns it.\<close>

definition hist :: "session_state \<Rightarrow> message list" where
  "hist s = fst (active_history s)"


section \<open>Facts about the session state\<close>

lemma heal_not_missing: "\<not> active_missing (heal s)"
  by (cases "convos s")
     (auto simp: heal_def active_missing_def create_new_chat_def Let_def split: option.splits)

lemma heal_fixed: "\<not> active_missing s \<Longrightarrow> heal s = s"
  by (simp add: heal_def)

lemma heal_heal [simp]: "heal (heal s) = heal s"
  by (simp add: heal_fixed heal_not_missing)

lemma append_msg_not_missing: "\<not> active_missing (append_msg role msg s)"
  using heal_not_missing [of s]
  by (auto simp: append_msg_def active_missing_def Let_def map_of_map_entry
           split: option.splits)

lemma heal_append_msg [simp]: "heal (append_msg role msg s) = append_msg role msg s"
  by (simp add: heal_fixed append_msg_not_missing)

lemma hist_append_msg [simp]: "hist (append_msg role msg s) = hist s @ [(role, msg)]"
proof -
  let ?s1 = "heal s"
  from heal_not_missing [of s] obtain k c
    where k: "active_id ?s1 = Some k" and c: "map_of (convos ?s1) k = Some c"
    by (auto simp: active_missing_def split: option.splits)
  have "hist s = history c"
    by (simp add: hist_def active_history_def active_session_def Let_def k c)
  moreover have "append_msg role msg s =
      ?s1\<lparr>convos := AList.map_entry k (\<lambda>c. c\<lparr>history := history c @ [(role, msg)]\<rparr>)
                          (convos ?s1)\<rparr>"
    by (simp add: append_msg_def Let_def k)
  moreover have "hist (append_msg role msg s) = history c @ [(role, msg)]"
    unfolding hist_def active_history_def active_session_def heal_append_msg Let_def
    by (simp add: calculation(2) k c map_of_map_entry)
  ultimately show ?thesis by simp
qed

lemma heal_upd [simp]:
  "heal (s\<lparr>password_game_step := a\<rparr>) = (heal s)\<lparr>password_game_step := a\<rparr>"
  "heal (s\<lparr>user_password := b\<rparr>) = (heal s)\<lparr>user_password := b\<rparr>"
  "heal (s\<lparr>in_password_game := c\<rparr>) = (heal s)\<lparr>in_password_game := c\<rparr>"
  "heal (s\<lparr>password_question_count := d\<rparr>) = (heal s)\<lparr>password_question_count := d\<rparr>"
  "heal (s\<lparr>phishing_question_count := e\<rparr>) = (heal s)\<lparr>phishing_question_count := e\<rparr>"
  "heal (s\<lparr>trace := f\<rparr>) = (heal s)\<lparr>trace := f\<rparr>"
  "heal (s\<lparr>coin_calls := g\<rparr>) = (heal s)\<lparr>coin_calls := g\<rparr>"
  by (auto simp: heal_def active_missing_def create_new_chat_def Let_def
           split: list.splits option.splits)

lemma hist_upd [simp]:
  "hist (s\<lparr>password_game_step := a\<rparr>) = hist s"
  "hist (s\<lparr>user_password := b\<rparr>) = hist s"
  "hist (s\<lparr>in_password_game := c\<rparr>) = hist s"
  "hist (s\<lparr>password_question_count := d\<rparr>) = hist s"
  "hist (s\<lparr>phishing_question_count := e\<rparr>) = hist s"
  "hist (s\<lparr>trace := f\<rparr>) = hist s"
  "hist (s\<lparr>coin_calls := g\<rparr>) = hist s"
  by (simp_all add: hist_def active_history_def active_session_def Let_def
               split: option.splits)

lemma append_msg_fields [simp]:
  "user_password (append_msg role msg s) = user_password s"
  "in_password_game (append_msg role msg s) = in_password_game s"
  "password_question_count (append_msg role msg s) = password_question_count s"
  "phishing_question_count (append_msg role msg s) = phishing_question_count s"
  "trace (append_msg role msg s) = trace s"
  "coins (append_msg role msg s) = coins s"
  "coin_calls (append_msg role msg s) = coin_calls s"
  by (simp_all add: append_msg_def heal_def create_new_chat_def Let_def
               split: option.splits list.splits)


section \<open>The password game: examples and properties\<close>

text \<open>A session with one empty conversation, in the game at step 1, and the same at step 4.\<close>

definition game_at_step1 :: session_state where
  "game_at_step1 =
     \<lparr>convos = [(''c0ffee00'', \<lparr>name = ''New Chat'', history = []\<rparr>)],
      active_id = Some ''c0ffee00'',
      in_password_game = True,
      password_game_step = Some 1,
      user_password = None,
      password_question_count = 0,
      phishing_question_count = 0,
      uuids = (\<lambda>n. ''00000000''),
      uuid_calls = 0,
      coins = (\<lambda>n. False),
      coin_calls = 0,
      trace = []\<rparr>"

definition game_at_step4 :: session_state where
  "game_at_step4 = game_at_step1\<lparr>password_game_step := Some 4, user_password := Some ''Abc1''\<rparr>"

lemma Abc1_classes: "has_uppercase ''Abc1''" "has_number ''Abc1''" "\<not> has_symbol ''Abc1''"
  by (simp_all add: has_uppercase_def has_number_def has_symbol_def isupper_def isdigit_def
        ascii_uppercase_def digits_def)

lemma hpg_step4:
  assumes "password_game_step s = Some 4"
  shows "handle_password_game m True s =
     (let s1 = s\<lparr>trace := trace s @ [Reentered], user_password := Some m\<rparr>;
          missing_requirements =
                 (if \<not> has_uppercase m then [''uppercase letter''] else []) @
                 (if \<not> has_number m then [''number''] else [])
      in if missing_requirements \<noteq> [] then
               append_msg ''assistant'' (reply_removed m missing_requirements) s1
             else if has_symbol m then
               (append_msg ''assistant'' (success_msg m) s1)
               \<lparr>in_password_game := False,
                password_game_step := Some 0,
                password_question_count := 0\<rparr>
             else append_msg ''assistant'' (reply_symbol_retry m) s1)"
  by (subst handle_password_game.simps) (simp add: assms Let_def)

lemma trace_step4:
  "password_game_step s = Some 4 \<Longrightarrow> trace (handle_password_game m True s) = trace s @ [Reentered]"
  by (simp add: hpg_step4 Let_def)

lemma trace_step3:
  assumes "password_game_step s = Some 3"
  shows "trace (handle_password_game m True s) = trace s @ [Reentered] \<or>
         trace (handle_password_game m True s) = trace s @ [Reentered, Reentered]"
  by (subst (1 2) handle_password_game.simps) (simp add: assms Let_def trace_step4)

lemma hpg_trace_cases:
  "trace (handle_password_game m False s) = trace s \<or>
   trace (handle_password_game m False s) = trace s @ [Reentered] \<or>
   trace (handle_password_game m False s) = trace s @ [Reentered, Reentered]"
proof -
  let ?s0 = "append_msg ''user'' m s"
  show ?thesis
    apply (subst (1 2 3) handle_password_game.simps)
    using trace_step3 [of "(append_msg ''assistant'' (reply_has_upper m) (?s0\<lparr>user_password := Some m\<rparr>))\<lparr>password_game_step := Some 3\<rparr>" m]
      trace_step3 [of "(append_msg ''assistant'' (reply_upper_done m) (?s0\<lparr>user_password := Some m\<rparr>))\<lparr>password_game_step := Some 3\<rparr>" m]
      trace_step4 [of "(append_msg ''assistant'' (reply_number_done m) (?s0\<lparr>user_password := Some m\<rparr>))\<lparr>password_game_step := Some 4\<rparr>" m]
    by (auto simp add: Let_def)
qed

text \<open>
  Claim C2, as the code has it: one external call of the password-game dispatch re-enters
  itself at most twice. The trace after the call is the trace before it followed by no, one
  or two recursive entries, whatever the state and the text.
\<close>

theorem game_skip_ahead_bound:
  "trace (handle_password_game m False s) = trace s \<or>
   trace (handle_password_game m False s) = trace s @ [Reentered] \<or>
   trace (handle_password_game m False s) = trace s @ [Reentered, Reentered]"
  by (rule hpg_trace_cases)

lemma Abc1bang_classes:
  "has_uppercase ''Abc1!''" "has_number ''Abc1!''" "has_symbol ''Abc1!''"
  by (simp_all add: has_uppercase_def has_number_def has_symbol_def isupper_def isdigit_def
        ascii_uppercase_def digits_def)

lemma hpg_Abc1:
  assumes "password_game_step s = Some 1"
  shows "handle_password_game ''Abc1'' False s =
     (append_msg ''assistant'' (reply_number_done ''Abc1'')
       ((append_msg ''assistant'' (reply_has_upper ''Abc1'')
          ((append_msg ''user'' ''Abc1'' s)\<lparr>user_password := Some ''Abc1''\<rparr>))
        \<lparr>password_game_step := Some 3, trace := trace s @ [Reentered],
         user_password := Some ''Abc1''\<rparr>))
     \<lparr>password_game_step := Some 4\<rparr>"
  apply (subst handle_password_game.simps)
  apply (simp add: assms Let_def Abc1_classes)
  apply (subst handle_password_game.simps)
  apply (simp add: assms Let_def Abc1_classes)
  done

text \<open>
  Claim C1, as the code has it: from step 1 the text \<open>Abc1\<close> leaves the game at step 4 after
  the one external call. The call appends the user message and exactly two assistant
  messages, and re-enters the dispatch once.
\<close>

theorem game_Abc1_from_step1:
  assumes "password_game_step s = Some 1"
  shows "password_game_step (handle_password_game ''Abc1'' False s) = Some 4 \<and>
         hist (handle_password_game ''Abc1'' False s) =
           hist s @ [(''user'', ''Abc1''),
                     (''assistant'', reply_has_upper ''Abc1''),
                     (''assistant'', reply_number_done ''Abc1'')] \<and>
         trace (handle_password_game ''Abc1'' False s) = trace s @ [Reentered]"
  by (simp add: hpg_Abc1 [OF assms])

text \<open>Claim C1: the theorem at a conversation that is at step 1.\<close>

theorem game_Abc1_from_step1_witness:
  "password_game_step game_at_step1 = Some 1 \<and>
   password_game_step (handle_password_game ''Abc1'' False game_at_step1) = Some 4 \<and>
   hist (handle_password_game ''Abc1'' False game_at_step1) =
     hist game_at_step1 @ [(''user'', ''Abc1''),
                     (''assistant'', reply_has_upper ''Abc1''),
                     (''assistant'', reply_number_done ''Abc1'')]"
proof -
  have h: "password_game_step game_at_step1 = Some 1"
    by (simp add: game_at_step1_def)
  show ?thesis using h game_Abc1_from_step1 [OF h] by simp
qed

text \<open>
  Claim C1 as stated fails: at a conversation at step 1 the text \<open>Abc1\<close> does not leave the
  game at step 3.
\<close>

theorem game_Abc1_not_step3:
  "password_game_step game_at_step1 = Some 1 \<and>
   password_game_step (handle_password_game ''Abc1'' False game_at_step1) \<noteq> Some 3"
proof -
  have h: "password_game_step game_at_step1 = Some 1"
    by (simp add: game_at_step1_def)
  show ?thesis using h by (simp add: hpg_Abc1 [OF h])
qed

lemma hpg_victory:
  assumes "password_game_step s = Some 4" "has_uppercase m" "has_number m" "has_symbol m"
  shows "handle_password_game m r s =
     (append_msg ''assistant'' (success_msg m)
        ((if \<not> r then append_msg ''user'' m s else s\<lparr>trace := trace s @ [Reentered]\<rparr>)
         \<lparr>user_password := Some m\<rparr>))
     \<lparr>in_password_game := False, password_game_step := Some 0,
      password_question_count := 0\<rparr>"
  by (subst handle_password_game.simps) (simp add: assms Let_def)

text \<open>
  Claim C10: on the victory transition (step 4, with an uppercase letter, a digit and a
  symbol in the text) the step is reset to 0, the game is no longer active, the password
  counter is 0, and \<open>user_password\<close> holds the winning text; this holds for the outer call
  and for a recursive entry alike.
\<close>

theorem game_victory_keeps_user_password:
  assumes "password_game_step s = Some 4" "has_uppercase m" "has_number m" "has_symbol m"
  shows "password_game_step (handle_password_game m r s) = Some 0 \<and>
         \<not> in_password_game (handle_password_game m r s) \<and>
         password_question_count (handle_password_game m r s) = 0 \<and>
         user_password (handle_password_game m r s) = Some m"
  by (simp add: hpg_victory [OF assms])

text \<open>Claim C10: the theorem at step 4 with the text \<open>Abc1!\<close>.\<close>

theorem game_victory_keeps_user_password_witness:
  "password_game_step game_at_step4 = Some 4 \<and> has_uppercase ''Abc1!'' \<and>
   has_number ''Abc1!'' \<and> has_symbol ''Abc1!'' \<and>
   user_password game_at_step4 = Some ''Abc1'' \<and>
   password_game_step (handle_password_game ''Abc1!'' False game_at_step4) = Some 0 \<and>
   \<not> in_password_game (handle_password_game ''Abc1!'' False game_at_step4) \<and>
   password_question_count (handle_password_game ''Abc1!'' False game_at_step4) = 0 \<and>
   user_password (handle_password_game ''Abc1!'' False game_at_step4) = Some ''Abc1!''"
proof -
  have h: "password_game_step game_at_step4 = Some 4"
    by (simp add: game_at_step4_def)
  have u: "user_password game_at_step4 = Some ''Abc1''"
    by (simp add: game_at_step4_def)
  show ?thesis
    using h u Abc1bang_classes
      game_victory_keeps_user_password [OF h Abc1bang_classes, of False]
    by simp
qed

lemma hpg_Abc1bang_trace:
  assumes "password_game_step s = Some 1"
  shows "trace (handle_password_game ''Abc1!'' False s) = trace s @ [Reentered, Reentered] \<and>
         password_game_step (handle_password_game ''Abc1!'' False s) = Some 0"
  apply (subst (1 2) handle_password_game.simps)
  apply (simp add: assms Let_def Abc1bang_classes)
  apply (subst (1 2) handle_password_game.simps)
  apply (simp add: assms Let_def Abc1bang_classes)
  apply (simp add: hpg_victory Abc1bang_classes)
  done

text \<open>
  Claim C2 as stated fails: at step 1 the text \<open>Abc1!\<close> makes the dispatch re-enter itself
  twice within one external call (step 1 to 3, 3 to 4, and the victory at 4).
\<close>

theorem game_two_skip_aheads:
  "password_game_step game_at_step1 = Some 1 \<and>
   trace game_at_step1 = [] \<and>
   trace (handle_password_game ''Abc1!'' False game_at_step1) = [Reentered, Reentered]"
proof -
  have h: "password_game_step game_at_step1 = Some 1"
    by (simp add: game_at_step1_def)
  have t: "trace game_at_step1 = []"
    by (simp add: game_at_step1_def)
  show ?thesis using h t hpg_Abc1bang_trace [OF h] by simp
qed


section \<open>The guardrail (src/guards.py)\<close>

definition BANNED :: "string list" where
  "BANNED = [''how to hack'', ''crack'', ''ddos'', ''payload'', ''exploit'', ''rat'',
             ''keylogger'', ''bypass paywall'']"

text \<open>The categories of \<open>CYBER_TOPICS_CATEGORIES\<close> and their union \<open>CYBER_TOPICS\<close>.\<close>

definition awareness :: "string list" where
  "awareness =
      [''phishing'', ''phishing awareness'', ''social media safety'', ''digital footprint'',
       ''cyber hygiene'', ''online privacy'', ''identity theft'',
       ''personal data protection'', ''safe browsing'', ''fake websites'', ''deepfake'',
       ''ai scams'', ''smishing'', ''vishing'', ''privacy'', ''breach'', ''scam'',
       ''malware'', ''virus'', ''ransomware'', ''update'', ''patch'', ''backup'',
       ''encryption'', ''social engineering'', ''email security'', ''password manager'',
       ''hacking prevention'']"

definition auth_access :: "string list" where
  "auth_access =
      [''password'', ''passphrase'', ''2fa'', ''two-factor'', ''multi-factor'', ''mfa'',
       ''otp'', ''authenticator'', ''biometric authentication'', ''passwordless login'',
       ''single sign-on'', ''identity and access management'',
       ''privileged access management'', ''iam'', ''pam'', ''account'', ''login'',
       ''sign-in'']"

definition network_internet :: "string list" where
  "network_internet =
      [''wifi'', ''router'', ''network'', ''vpn'', ''dns security'', ''ip spoofing'',
       ''man-in-the-middle attack'', ''ssl'', ''tls'', ''https'', ''secure connection'']"

definition endpoint_os :: "string list" where
  "endpoint_os =
      [''patch management'', ''device hardening'', ''operating system security'',
       ''mobile security'', ''byod security'', ''endpoint protection'', ''anti-malware'',
       ''antivirus'', ''zero trust'']"

definition org_process :: "string list" where
  "org_process =
      [''security policy'', ''risk management'', ''incident management plan'',
       ''business continuity'', ''disaster recovery'', ''incident response'']"

definition cloud_api :: "string list" where
  "cloud_api =
      [''cloud security'', ''data residency'', ''shared responsibility model'',
       ''api security'', ''xdr'', ''extended detection and response'', ''edr'',
       ''endpoint detection and response'', ''mxdr'', ''managed xdr'', ''soar'',
       ''security orchestration automation and response'']"

definition threats :: "string list" where
  "threats =
      [''botnet'', ''spyware'', ''keylogger'', ''trojan'', ''adware'', ''ddos'',
       ''denial of service'', ''zero-day exploit'', ''insider threat'', ''threat detection'',
       ''threat actor'', ''cyber attack'', ''cyber threat'']"

definition frameworks :: "string list" where
  "frameworks =
      [''iso 27001'', ''gdpr'', ''pdpa'', ''information security'', ''cybersecurity'',
       ''infosec'']"

definition education :: "string list" where
  "education =
      [''cyber ethics'', ''digital citizenship'', ''safe online behavior'',
       ''security training'', ''cyberbullying prevention'', ''security awareness'']"

definition common_typos :: "string list" where
  "common_typos =
      [''phising'', ''pishing'', ''fishing'', ''phish'', ''pasword'', ''passwrd'',
       ''pass word'', ''pasphrase'', ''malwear'', ''malwar'', ''ransomwear'',
       ''randsomware'', ''addware'', ''spy ware'', ''cyber security'', ''cibersecurity'',
       ''ciber'', ''cybersec'', ''infosecurity'', ''wi-fi'', ''wi fi'', ''fire wall'',
       ''anti virus'', ''anti-virus'', ''authentification'', ''authenication'',
       ''priviledge'', ''hygene'']"

definition CYBER_TOPICS :: "string list" where
  "CYBER_TOPICS = awareness @ auth_access @ network_internet @ endpoint_os @ org_process @ cloud_api @ threats @ frameworks @ education @ common_typos"

text \<open>
  The class \<open>\w\<close> and the assertion \<open>\b\<close> of \<open>re\<close>, on ASCII text: the word characters are
  the letters, the digits and the underscore (outside ASCII \<open>re\<close> also counts the letters
  and digits of Unicode), and \<open>\b\<close> holds between two neighbours of which exactly one is a
  word character, the start and the end of the text counting as non-word neighbours.
\<close>

definition is_word_char :: "char \<Rightarrow> bool" where
  "is_word_char c = (isupper c \<or> islower c \<or> isdigit c \<or> c = CHR ''_'')"

definition is_word_opt :: "char option \<Rightarrow> bool" where
  "is_word_opt x = (case x of None \<Rightarrow> False | Some c \<Rightarrow> is_word_char c)"

definition word_boundary :: "char option \<Rightarrow> char option \<Rightarrow> bool" where
  "word_boundary prev next = (is_word_opt prev \<noteq> is_word_opt next)"

definition head_opt :: "string \<Rightarrow> char option" where
  "head_opt s = (case s of [] \<Rightarrow> None | c # cs \<Rightarrow> Some c)"

text \<open>
  \<open>re.search(rf"\b{re.escape(k)}\b", q)\<close>: the escaped term matches itself, so the pattern
  matches at a position when \<open>\b\<close> holds there, the text goes on with \<open>k\<close>, and \<open>\b\<close> holds
  after it; the search tries every position from left to right. \<open>prev\<close> is the character
  in front of the position.
\<close>

definition match_bounded_at :: "string \<Rightarrow> char option \<Rightarrow> string \<Rightarrow> bool" where
  "match_bounded_at k prev rest =
     (word_boundary prev (head_opt rest) \<and>
      startswith rest k \<and>
      word_boundary (if k = [] then prev else Some (last k))
                    (head_opt (drop (length k) rest)))"

fun search_from :: "string \<Rightarrow> char option \<Rightarrow> string \<Rightarrow> bool" where
  "search_from k prev [] = match_bounded_at k prev []"
| "search_from k prev (c # cs) =
     (match_bounded_at k prev (c # cs) \<or> search_from k (Some c) cs)"

definition re_search_bounded :: "string \<Rightarrow> string \<Rightarrow> bool" where
  "re_search_bounded k q = search_from k None q"

definition deny_msg :: string where
  "deny_msg = ''I can't help with offensive or illegal hacking. '' @
              ''Let's focus on defensive skills like phishing detection, '' @
              ''strong passwords, and 2FA.''"

definition offtopic_msg :: string where
  "offtopic_msg =
     ''This is a **Cybersecurity Education Bot**. '' @
     ''Kindly ask questions related to cybersecurity.\<newline>\<newline>'' @
     ''**You can ask about:**\<newline>'' @
     [CHR 0xE2, CHR 0x80, CHR 0xA2] @
     '' Spotting phishing emails/messages\<newline>'' @
     [CHR 0xE2, CHR 0x80, CHR 0xA2] @
     '' Creating strong passwords & using password managers\<newline>'' @
     [CHR 0xE2, CHR 0x80, CHR 0xA2] @
     '' Two-factor authentication (2FA)\<newline>'' @
     [CHR 0xE2, CHR 0x80, CHR 0xA2] @
     '' Privacy settings for phone/social media\<newline>'' @
     [CHR 0xE2, CHR 0x80, CHR 0xA2] @
     '' Securing your home Wi-Fi/router\<newline>'' @
     [CHR 0xE2, CHR 0x80, CHR 0xA2] @
     '' Recognising scams, malware & safe downloading\<newline>'' @
     [CHR 0xE2, CHR 0x80, CHR 0xA2] @
     '' Updates, backups, and account recovery''"

text \<open>
  \<open>guardrails_or_offtopic\<close>, for an ASCII \<open>user_text\<close>, returns a redirect text or
  \<open>None\<close>. The verdicts of the specification are read off the result: Deny is
  \<open>Some deny_msg\<close>, Offtopic is \<open>Some offtopic_msg\<close>, Allow is \<open>None\<close>.
\<close>

definition guardrails_or_offtopic :: "string \<Rightarrow> message list \<Rightarrow> string option" where
  "guardrails_or_offtopic user_text turns =
     (let q = lower user_text in
      if list_ex (\<lambda>k. re_search_bounded k q) BANNED then Some deny_msg
      else if length turns > 0 then None
      else if \<not> list_ex (\<lambda>k. str_in k q) CYBER_TOPICS then Some offtopic_msg
      else None)"





section \<open>The guardrail: properties\<close>














section \<open>Titles and the off-topic mark (src/llm.py)\<close>

definition STOPWORDS :: "string list" where
  "STOPWORDS =
     [''what'', ''how'', ''why'', ''is'', ''are'', ''the'', ''a'', ''an'', ''of'', ''in'',
      ''to'', ''for'', ''on'', ''with'', ''and'', ''or'', ''my'', ''your'', ''our'',
      ''their'', ''this'', ''that'', ''it'', ''do'', ''does'', ''can'', ''should'',
      ''could'', ''about'', ''please'', ''tell'', ''me'', ''explain'']"

definition OFFTOPIC_SUFFIX :: string where
  "OFFTOPIC_SUFFIX = '' (Not Cybersecurity Related)''"

text \<open>
  White space of ASCII text, for \<open>str.split()\<close>, \<open>str.strip()\<close> and the class \<open>\s\<close>: the
  characters 9 to 13, 28 to 31 and the blank. (Outside ASCII the program also takes the
  white space of Unicode, such as the no-break space.)
\<close>

definition isspace :: "char \<Rightarrow> bool" where
  "isspace c = (c \<in> set [CHR 0x09, CHR 0x0A, CHR 0x0B, CHR 0x0C, CHR 0x0D,
                           CHR 0x1C, CHR 0x1D, CHR 0x1E, CHR 0x1F, CHR 0x20])"

text \<open>\<open>s.split()\<close>: the maximal runs of characters that are not white space.\<close>

fun split_from :: "string \<Rightarrow> string \<Rightarrow> string list" where
  "split_from cur [] = (if cur = [] then [] else [cur])"
| "split_from cur (c # cs) =
     (if isspace c then (if cur = [] then split_from [] cs else cur # split_from [] cs)
      else split_from (cur @ [c]) cs)"

definition split :: "string \<Rightarrow> string list" where
  "split s = split_from [] s"

definition strip :: "string \<Rightarrow> string" where
  "strip s = rev (dropWhile isspace (rev (dropWhile isspace s)))"

text \<open>
  \<open>s.title()\<close>: a cased character becomes uppercase after an uncased one (or at the start)
  and lowercase after a cased one.
\<close>

fun title_from :: "bool \<Rightarrow> string \<Rightarrow> string" where
  "title_from previous_is_cased [] = []"
| "title_from previous_is_cased (c # cs) =
     (if islower c then (if previous_is_cased then c else upper_char c) # title_from True cs
      else if isupper c then (if previous_is_cased then lower_char c else c) # title_from True cs
      else c # title_from False cs)"

definition title :: "string \<Rightarrow> string" where
  "title s = title_from False s"

text \<open>
  \<open>re.sub(r"[^\w\s-]", "", text)\<close> keeps the word characters, the white space and the hyphen;
  \<open>_clean_title\<close> is modelled for ASCII text, where the classes and the casing are those of
  the model.
\<close>

definition keep_title_char :: "char \<Rightarrow> bool" where
  "keep_title_char c = (is_word_char c \<or> isspace c \<or> c = CHR ''-'')"

definition clean_title :: "string \<Rightarrow> string" where
  "clean_title text0 =
     (let text1 = filter keep_title_char (lower text0);
          words = filter (\<lambda>w. w \<notin> set STOPWORDS) (split text1);
          t = title (join '' '' (take 6 words))
      in if t = [] then ''Chat'' else t)"

text \<open>\<open>str(n)\<close> for a natural number.\<close>

fun str_nat :: "nat \<Rightarrow> string" where
  "str_nat n = (if n < 10 then [digits ! n]
                else str_nat (n div 10) @ [digits ! (n mod 10)])"

declare str_nat.simps [simp del]

definition numbered :: "string \<Rightarrow> nat \<Rightarrow> string" where
  "numbered nm n = nm @ '' ('' @ str_nat n @ '')''"

text \<open>
  The loop of \<open>_ensure_unique_name\<close>: the first \<open>f"{name} ({n})"\<close>, counting up from \<open>n\<close>,
  that is not an existing name.
\<close>

function unique_from :: "string \<Rightarrow> string list \<Rightarrow> nat \<Rightarrow> string" where
  "unique_from nm existing n =
     (let candidate = numbered nm n
      in if candidate \<notin> set existing then candidate
         else unique_from nm existing (n + 1))"
  by pat_completeness auto

definition ensure_unique_name :: "string \<Rightarrow> (string \<times> chat) list \<Rightarrow> string" where
  "ensure_unique_name nm convos0 =
     (let existing = map (\<lambda>(k, v). name v) convos0
      in if nm \<notin> set existing then nm else unique_from nm existing 2)"

lemma digits_distinct: "distinct digits" "length digits = 10"
  by (simp_all add: digits_def)

lemma str_nat_nonempty: "str_nat n \<noteq> []"
  by (subst str_nat.simps) simp

lemma str_nat_inj: "str_nat n = str_nat m \<Longrightarrow> n = m"
proof (induction n arbitrary: m rule: str_nat.induct)
  case (1 n)
  show ?case
  proof (cases "n < 10")
    case True
    show ?thesis
    proof (cases "m < 10")
      case m: True
      from "1.prems" True m have "digits ! n = digits ! m"
        by (simp add: str_nat.simps [of n] str_nat.simps [of m])
      with True m show ?thesis
        by (simp add: nth_eq_iff_index_eq digits_distinct)
    next
      case False
      with "1.prems" True str_nat_nonempty [of "m div 10"] show ?thesis
        by (simp add: str_nat.simps [of n] str_nat.simps [of m])
    qed
  next
    case False
    show ?thesis
    proof (cases "m < 10")
      case True
      with "1.prems" False str_nat_nonempty [of "n div 10"] show ?thesis
        by (simp add: str_nat.simps [of n] str_nat.simps [of m])
    next
      case m: False
      from "1.prems" False m
      have a: "str_nat (n div 10) = str_nat (m div 10)"
        and b: "digits ! (n mod 10) = digits ! (m mod 10)"
        by (simp_all add: str_nat.simps [of n] str_nat.simps [of m])
      from a have "n div 10 = m div 10" using "1.IH" False by simp
      moreover from b have "n mod 10 = m mod 10"
        by (simp add: nth_eq_iff_index_eq digits_distinct)
      ultimately show ?thesis by (metis div_mult_mod_eq)
    qed
  qed
qed

lemma numbered_inj: "inj (numbered nm)"
  by (rule injI) (simp add: numbered_def str_nat_inj)

lemma finite_numbered: "finite {m. numbered nm m \<in> set existing}"
proof -
  have "{m. numbered nm m \<in> set existing} = numbered nm -` set existing" by auto
  then show ?thesis by (simp add: finite_vimageI numbered_inj)
qed

termination unique_from
proof (relation "measure (\<lambda>(nm, existing, n). card {m. n \<le> m \<and> numbered nm m \<in> set existing})")
  show "wf (measure (\<lambda>(nm, existing, n). card {m. n \<le> m \<and> numbered nm m \<in> set existing}))"
    by simp
next
  fix nm :: string and existing :: "string list" and n :: nat and candidate :: string
  assume c: "candidate = numbered nm n" and "\<not> candidate \<notin> set existing"
  then have n: "numbered nm n \<in> set existing" by simp
  have fin: "finite {m. n \<le> m \<and> numbered nm m \<in> set existing}"
    by (rule finite_subset [OF _ finite_numbered [of nm existing]]) auto
  have "n \<in> {m. n \<le> m \<and> numbered nm m \<in> set existing}"
    and "n \<notin> {m. n + 1 \<le> m \<and> numbered nm m \<in> set existing}"
    using n by simp_all
  moreover have "{m. n + 1 \<le> m \<and> numbered nm m \<in> set existing}
          \<subseteq> {m. n \<le> m \<and> numbered nm m \<in> set existing}"
    by auto
  ultimately have "{m. n + 1 \<le> m \<and> numbered nm m \<in> set existing}
          \<subset> {m. n \<le> m \<and> numbered nm m \<in> set existing}"
    by blast
  then have "card {m. n + 1 \<le> m \<and> numbered nm m \<in> set existing}
          < card {m. n \<le> m \<and> numbered nm m \<in> set existing}"
    by (rule psubset_card_mono [OF fin])
  then show "((nm, existing, n + 1), (nm, existing, n))
      \<in> measure (\<lambda>(nm, existing, n). card {m. n \<le> m \<and> numbered nm m \<in> set existing})"
    by simp
qed

declare unique_from.simps [simp del]


text \<open>
  The generation backend, as far as the program sees it. \<open>generate_content\<close> answers a
  prompt with a text, or with \<open>None\<close> when the call raises or the response has no text.
  \<open>generate_content_stream\<close> yields events, each with a text or without, and ends normally or
  by raising an exception with a message. The first argument of both is the model name.
\<close>

datatype stream_end = Completed | Raised string

record client =
  generate_content :: "string \<Rightarrow> string \<Rightarrow> string option"
  generate_content_stream :: "string \<Rightarrow> string \<Rightarrow> string option list \<times> stream_end"

text \<open>A missing dictionary key raises \<open>KeyError\<close>.\<close>

datatype error = KeyError

definition default_name :: "string \<Rightarrow> bool" where
  "default_name nm = (nm = ''New Chat'' \<or> nm = ''New chat'' \<or> startswith nm ''Chat '')"

definition title_prompt :: "string list \<Rightarrow> string" where
  "title_prompt user_msgs =
     ''Create a concise 4'' @
     [CHR 0xC3, CHR 0xA2, CHR 0xE2, CHR 0x82, CHR 0xAC, CHR 0xE2, CHR 0x80, CHR 0x9C] @
     ''6 word title for this conversation topic. '' @
     ''No punctuation, quotes, emojis, or IDs. Return title only.\<newline>\<newline>'' @
     ''User messages:\<newline>- '' @ join ''\<newline>- '' (take 2 user_msgs)"

text \<open>
  The title the backend proposes: \<open>resp.text.strip().replace("\n", " ")\<close> without the
  characters \<open>" . ! ? :\<close>, or \<open>None\<close> when there is no client, no text, or an exception.
\<close>

definition backend_title :: "client option \<Rightarrow> string \<Rightarrow> string list \<Rightarrow> string option" where
  "backend_title cl model user_msgs =
     (case cl of
        None \<Rightarrow> None
      | Some c \<Rightarrow>
          (case generate_content c model (title_prompt user_msgs) of
             None \<Rightarrow> None
           | Some text0 \<Rightarrow>
               if text0 = [] then None
               else Some (filter (\<lambda>ch. ch \<notin> set [CHR 0x22, CHR ''.'', CHR ''!'', CHR ''?'', CHR '':''])
                            (map (\<lambda>ch. if ch = CHR 0x0A then CHR '' '' else ch) (strip text0)))))"

text \<open>
  \<open>set_title_from_msgs\<close>. The slice \<open>title[:40]\<close> counts characters; on an ASCII title these
  are the characters of the model.
\<close>

definition set_title_from_msgs ::
  "client option \<Rightarrow> string \<Rightarrow> (string \<times> chat) list \<Rightarrow> string \<Rightarrow> string list
     \<Rightarrow> error + (string \<times> chat) list" where
  "set_title_from_msgs cl model convos0 session_id user_msgs =
     (if user_msgs = [] then Inr convos0
      else
        (case map_of convos0 session_id of
           None \<Rightarrow> Inl KeyError
         | Some sess \<Rightarrow>
             if \<not> default_name (name sess) then Inr convos0
             else
               (let title0 = backend_title cl model user_msgs;
                    title1 = (case title0 of
                                None \<Rightarrow> clean_title (join '' '' (take 2 user_msgs))
                              | Some t \<Rightarrow>
                                  if t = [] then clean_title (join '' '' (take 2 user_msgs))
                                  else t);
                    title2 = strip (take 40 title1)
                in Inr (AList.update session_id
                          (sess\<lparr>name := ensure_unique_name title2 convos0\<rparr>) convos0))))"

definition user_turns :: "message list \<Rightarrow> string list" where
  "user_turns h = map snd (filter (\<lambda>(r, m). r = ''user'') h)"

definition auto_title_if_needed ::
  "client option \<Rightarrow> string \<Rightarrow> (string \<times> chat) list \<Rightarrow> string
     \<Rightarrow> error + (string \<times> chat) list" where
  "auto_title_if_needed cl model convos0 session_id =
     (case map_of convos0 session_id of
        None \<Rightarrow> Inl KeyError
      | Some sess \<Rightarrow>
          if \<not> default_name (name sess) then Inr convos0
          else
            (let user_msgs = take 2 (user_turns (history sess))
             in if user_msgs = [] then Inr convos0
                else set_title_from_msgs cl model convos0 session_id user_msgs))"

definition mark_offtopic ::
  "client option \<Rightarrow> string \<Rightarrow> (string \<times> chat) list \<Rightarrow> string
     \<Rightarrow> error + (string \<times> chat) list" where
  "mark_offtopic cl model convos0 session_id =
     (case map_of convos0 session_id of
        None \<Rightarrow> Inl KeyError
      | Some sess \<Rightarrow>
          (let retitled =
                 (if startswith (lower (name sess)) ''new chat'' \<or> startswith (name sess) ''Chat ''
                  then
                    (let ut = user_turns (history sess);
                         user_msgs = drop (length ut - 2) ut
                     in if user_msgs \<noteq> []
                        then set_title_from_msgs cl model convos0 session_id user_msgs
                        else Inr convos0)
                  else Inr convos0)
           in case retitled of
                Inl e \<Rightarrow> Inl e
              | Inr convos1 \<Rightarrow>
                  (case map_of convos1 session_id of
                     None \<Rightarrow> Inl KeyError
                   | Some sess1 \<Rightarrow>
                       if \<not> endswith (name sess1) OFFTOPIC_SUFFIX
                       then Inr (AList.update session_id
                                   (sess1\<lparr>name := ensure_unique_name
                                                      (name sess1 @ OFFTOPIC_SUFFIX) convos1\<rparr>)
                                   convos1)
                       else Inr convos1)))"

definition build_prompt :: "string \<Rightarrow> string \<Rightarrow> message list \<Rightarrow> string" where
  "build_prompt system_instruction user_msg h =
     join ''\<newline>''
       ([''System: '' @ system_instruction] @
        map (\<lambda>(role, msg). (if role = ''user'' then ''User: '' else ''Tutor: '') @ msg)
            (drop (length h - 8) h) @
        [''User: '' @ user_msg, ''Tutor:''])"



section \<open>The chat turn (src/app.py)\<close>

definition MODEL :: string where
  "MODEL = ''gemini-2.0-flash''"

definition SYSTEM_INSTRUCTION :: string where
  "SYSTEM_INSTRUCTION =
     ''You are a friendly cybersecurity tutor for beginners and intermediate learners. '' @
     ''Teach defensive security concepts including: passwords, phishing, 2FA, privacy, '' @
     ''device hygiene, '' @
     ''honeypots (defensive decoy systems), firewalls, intrusion detection, '' @
     ''threat monitoring, and incident response. '' @
     ''You can explain how attacks work from a defensive learning perspective '' @
     ''(to help users understand threats), '' @
     ''but refuse to teach actual hacking techniques, exploit code, or illegal activities. '' @
     ''Use clear, short paragraphs and end with 1'' @
     [CHR 0xE2, CHR 0x80, CHR 0x93] @
     ''2 actionable tips.''"

definition error_text :: "string \<Rightarrow> string" where
  "error_text e =
     [CHR 0xE2, CHR 0x9A, CHR 0xA0, CHR 0xEF, CHR 0xB8, CHR 0x8F] @ '' An error occurred: '' @ e"

definition game_msg :: string where
  "game_msg = ''\<newline>\<newline>Would you like to play a game to better understand '' @
              ''what makes a strong password?''"

definition quiz_msg :: string where
  "quiz_msg =
     ''\<newline>\<newline>**('' @
     [CHR 0xE2, CHR 0x9A, CHR 0xA0, CHR 0xEF, CHR 0xB8, CHR 0x8F] @
     '' Safety Reminder)**: As a general rule, '' @
     ''**please do not click on random links** you receive online.\<newline>\<newline>'' @
     ''However, for this exercise, I am sharing a '' @
     ''**genuine, verified link from Google** specifically designed to test your '' @
     ''phishing skills:\<newline>'' @
     [CHR 0xF0, CHR 0x9F, CHR 0x91, CHR 0x89] @
     '' https://phishingquiz.withgoogle.com/''"

definition improve_keywords :: "string list" where
  "improve_keywords = [''improve'', ''better'', ''secure'', ''strong'', ''safe'', ''strengthen'']"

definition phishing_test_keywords :: "string list" where
  "phishing_test_keywords =
     [''test'', ''quiz'', ''check'', ''practice'', ''game'', ''spot'', ''identify'']"

text \<open>\<open>random.choice([True, False])\<close>: the next result of the source of chance.\<close>

definition flip :: "session_state \<Rightarrow> bool \<times> session_state" where
  "flip s = (coins s (coin_calls s), s\<lparr>coin_calls := Suc (coin_calls s)\<rparr>)"

text \<open>
  The \<open>try\<close> block of the model turn: without a client the \<open>ValueError\<close> is caught; with a
  client the prompt is built from the history as it then stands and the texts of the events
  are collected; an exception of the stream replaces what was collected by the error text.
\<close>

definition model_reply :: "client option \<Rightarrow> string \<Rightarrow> session_state \<Rightarrow> string \<times> session_state" where
  "model_reply cl user_msg s =
     (case cl of
        None \<Rightarrow> (error_text ''Gemini API client not initialized.'', s)
      | Some c \<Rightarrow>
          (case active_history s of
             (h, s1) \<Rightarrow>
               (let prompt = build_prompt SYSTEM_INSTRUCTION user_msg h
                in case generate_content_stream c MODEL prompt of
                     (events, fin) \<Rightarrow>
                       ((case fin of
                           Raised e \<Rightarrow> error_text e
                         | Completed \<Rightarrow>
                             concat (map (\<lambda>ev. case ev of None \<Rightarrow> [] | Some tx \<Rightarrow> tx) events)),
                        s1\<lparr>trace := trace s1 @ [Prompted prompt]\<rparr>))))"

text \<open>The value of \<open>trigger_game\<close>; the coin is flipped only when the counter is exactly 2.\<close>

definition password_trigger :: "string \<Rightarrow> session_state \<Rightarrow> bool \<times> session_state" where
  "password_trigger user_msg s =
     (if str_in ''password'' (lower user_msg) \<and>
         list_ex (\<lambda>k. str_in k (lower user_msg)) improve_keywords then (True, s)
      else if password_question_count s \<ge> 3 then (True, s)
      else if password_question_count s = 2 then flip s
      else (False, s))"

definition phishing_trigger :: "string \<Rightarrow> session_state \<Rightarrow> bool \<times> session_state" where
  "phishing_trigger user_msg s =
     (if str_in ''phishing'' (lower user_msg) \<and>
         list_ex (\<lambda>k. str_in k (lower user_msg)) phishing_test_keywords then (True, s)
      else if phishing_question_count s \<ge> 3 then (True, s)
      else if phishing_question_count s = 2 then flip s
      else (False, s))"

definition maybe_update_title_after_first_turn ::
  "client option \<Rightarrow> string \<Rightarrow> session_state \<Rightarrow> error + session_state" where
  "maybe_update_title_after_first_turn cl model s =
     (case active_id s of
        None \<Rightarrow> Inl KeyError
      | Some aid \<Rightarrow>
          (case map_of (convos s) aid of
             None \<Rightarrow> Inl KeyError
           | Some sess \<Rightarrow>
               (let u_turns = user_turns (history sess)
                in if length u_turns = 1 \<or> length u_turns = 2 then
                     (case auto_title_if_needed cl model (convos s) aid of
                        Inl e \<Rightarrow> Inl e
                      | Inr cs \<Rightarrow> Inr (s\<lparr>convos := cs\<rparr>))
                   else Inr s)))"

text \<open>
  The turn that the guardrail redirects: the user message and the redirect are appended and
  \<open>mark_offtopic\<close> is called on the active conversation.
\<close>

definition redirect_turn ::
  "client option \<Rightarrow> string \<Rightarrow> string \<Rightarrow> session_state \<Rightarrow> error + session_state" where
  "redirect_turn cl user_msg redirect s =
     (let s1 = append_msg ''assistant'' redirect (append_msg ''user'' user_msg s)
      in case active_id s1 of
           None \<Rightarrow> Inl KeyError
         | Some aid \<Rightarrow>
             (case mark_offtopic cl MODEL (convos s1) aid of
                Inl e \<Rightarrow> Inl e
              | Inr cs \<Rightarrow> Inr (s1\<lparr>convos := cs, trace := trace s1 @ [Marked aid]\<rparr>)))"

text \<open>
  The turn that goes to the model: the user message is appended, the reply is collected and
  appended, the two triggers are evaluated, and the title is updated.
\<close>

definition model_turn :: "client option \<Rightarrow> string \<Rightarrow> session_state \<Rightarrow> error + session_state" where
  "model_turn cl user_msg s =
     (let s1 = append_msg ''user'' user_msg s
      in case model_reply cl user_msg s1 of
           (collected, s2) \<Rightarrow>
             (let s3 = append_msg ''assistant'' collected s2
              in case password_trigger user_msg s3 of
                   (trigger_game, s4) \<Rightarrow>
                     (let s5 = (if trigger_game \<and> \<not> in_password_game s4
                                then (append_msg ''assistant'' game_msg s4)
                                     \<lparr>password_question_count := 0\<rparr>
                                else s4)
                      in case phishing_trigger user_msg s5 of
                           (trigger_phishing, s6) \<Rightarrow>
                             (let s7 = (if trigger_phishing
                                        then (append_msg ''assistant'' quiz_msg s6)
                                             \<lparr>phishing_question_count := 0\<rparr>
                                        else s6)
                              in maybe_update_title_after_first_turn cl MODEL s7))))"

text \<open>
  What \<open>show_chatbot_ui\<close> does with a submitted message. Every path ends in \<open>st.rerun()\<close>,
  which ends the script run; the result is the session state left behind, or the
  \<open>KeyError\<close> that ended the run.
\<close>

definition on_chat_input :: "client option \<Rightarrow> string \<Rightarrow> session_state \<Rightarrow> error + session_state" where
  "on_chat_input cl user_msg s =
     (case active_history s of
        (h, s1) \<Rightarrow>
          if lower user_msg = ''yes'' \<and> length h > 0 \<and> fst (last h) = ''assistant'' \<and>
             str_in ''would you like to play a game'' (lower (snd (last h)))
          then Inr (handle_password_game user_msg False (s1\<lparr>in_password_game := True\<rparr>))
          else if in_password_game s1 then Inr (handle_password_game user_msg False s1)
          else
            (let s2 = (if str_in ''password'' (lower user_msg)
                       then s1\<lparr>password_question_count := password_question_count s1 + 1\<rparr>
                       else s1);
                 s3 = (if str_in ''phishing'' (lower user_msg)
                       then s2\<lparr>phishing_question_count := phishing_question_count s2 + 1\<rparr>
                       else s2)
             in if \<not> in_password_game s3 then
                  (case active_history s3 of
                     (h3, s4) \<Rightarrow>
                       (case guardrails_or_offtopic user_msg h3 of
                          None \<Rightarrow> model_turn cl user_msg s4
                        | Some redirect \<Rightarrow>
                            if redirect \<noteq> [] then redirect_turn cl user_msg redirect s4
                            else model_turn cl user_msg s4))
                else Inr s3))"


section \<open>Facts about titles and the chat turn\<close>

lemma active_history_eq: "active_history s = (hist s, heal s)"
  by (simp add: hist_def active_history_def active_session_def Let_def split: prod.splits)

lemma hist_heal [simp]: "hist (heal s) = hist s"
  by (simp add: hist_def active_history_def active_session_def Let_def)

lemma heal_fields [simp]:
  "in_password_game (heal s) = in_password_game s"
  "user_password (heal s) = user_password s"
  "password_question_count (heal s) = password_question_count s"
  "phishing_question_count (heal s) = phishing_question_count s"
  "trace (heal s) = trace s"
  "coins (heal s) = coins s"
  "coin_calls (heal s) = coin_calls s"
  by (simp_all add: heal_def create_new_chat_def Let_def split: list.splits)

lemma active_missing_upd [simp]:
  "active_missing (s\<lparr>password_game_step := a\<rparr>) = active_missing s"
  "active_missing (s\<lparr>user_password := b\<rparr>) = active_missing s"
  "active_missing (s\<lparr>in_password_game := c\<rparr>) = active_missing s"
  "active_missing (s\<lparr>password_question_count := d\<rparr>) = active_missing s"
  "active_missing (s\<lparr>phishing_question_count := e\<rparr>) = active_missing s"
  "active_missing (s\<lparr>trace := f\<rparr>) = active_missing s"
  "active_missing (s\<lparr>coin_calls := g\<rparr>) = active_missing s"
  by (simp_all add: active_missing_def split: option.splits)

lemma present_lookup:
  "\<not> active_missing s \<Longrightarrow> \<exists>aid sess. active_id s = Some aid \<and> map_of (convos s) aid = Some sess"
  by (auto simp: active_missing_def split: option.splits)

lemma hist_present:
  "active_id s = Some aid \<Longrightarrow> map_of (convos s) aid = Some sess \<Longrightarrow> hist s = history sess"
  by (simp add: hist_def active_history_def active_session_def Let_def heal_def
        active_missing_def)

text \<open>A change of conversation names leaves the histories alone.\<close>

definition same_histories :: "(string \<times> chat) list \<Rightarrow> (string \<times> chat) list \<Rightarrow> bool" where
  "same_histories cs cs' =
     (\<forall>k. (case map_of cs k of
              None \<Rightarrow> map_of cs' k = None
            | Some c \<Rightarrow> (\<exists>c'. map_of cs' k = Some c' \<and> history c' = history c)))"

lemma same_histories_refl [simp]: "same_histories cs cs"
  by (simp add: same_histories_def split: option.splits)


lemma same_histories_rename:
  "map_of cs k = Some c \<Longrightarrow> same_histories cs (AList.update k (c\<lparr>name := n\<rparr>) cs)"
  by (simp add: same_histories_def update_conv' split: option.splits)

lemma set_title_same:
  "map_of cs k \<noteq> None \<Longrightarrow>
   \<exists>cs'. set_title_from_msgs cl model cs k msgs = Inr cs' \<and> same_histories cs cs'"
  by (auto simp: set_title_from_msgs_def Let_def same_histories_rename split: option.splits)

lemma auto_title_same:
  "map_of cs k \<noteq> None \<Longrightarrow>
   \<exists>cs'. auto_title_if_needed cl model cs k = Inr cs' \<and> same_histories cs cs'"
  using set_title_same [of cs k cl model]
  by (auto simp: auto_title_if_needed_def Let_def split: option.splits)


lemma same_histories_state:
  assumes "same_histories (convos s) cs" "\<not> active_missing s"
  shows "\<not> active_missing (s\<lparr>convos := cs\<rparr>)" "hist (s\<lparr>convos := cs\<rparr>) = hist s"
proof -
  from present_lookup [OF assms(2)] obtain aid sess
    where a: "active_id s = Some aid" and l: "map_of (convos s) aid = Some sess" by blast
  from assms(1) l obtain sess' where l': "map_of cs aid = Some sess'"
    and h: "history sess' = history sess"
    by (auto simp: same_histories_def split: option.splits dest: spec [of _ aid])
  show "\<not> active_missing (s\<lparr>convos := cs\<rparr>)"
    by (simp add: active_missing_def a l')
  have "hist (s\<lparr>convos := cs\<rparr>) = history sess'"
    by (rule hist_present [of _ aid]) (simp_all add: a l')
  moreover have "hist s = history sess" by (rule hist_present [OF a l])
  ultimately show "hist (s\<lparr>convos := cs\<rparr>) = hist s" by (simp add: h)
qed


lemma model_reply_frame:
  "\<exists>s'. snd (model_reply cl m s) = s' \<and>
     hist s' = hist s \<and>
     in_password_game s' = in_password_game s \<and>
     password_question_count s' = password_question_count s \<and>
     phishing_question_count s' = phishing_question_count s \<and>
     coins s' = coins s \<and> coin_calls s' = coin_calls s \<and>
     (active_missing s' \<longrightarrow> active_missing s) \<and>
     trace s' = trace s @
       (case cl of None \<Rightarrow> []
        | Some c \<Rightarrow> [Prompted (build_prompt SYSTEM_INSTRUCTION m (hist s))])"
  using heal_not_missing [of s]
  by (auto simp: model_reply_def active_history_eq Let_def split: option.splits prod.splits)

lemma password_trigger_eq:
  "password_trigger m s =
     (let fired = ((str_in ''password'' (lower m) \<and>
                    list_ex (\<lambda>k. str_in k (lower m)) improve_keywords) \<or>
                   password_question_count s \<ge> 3 \<or>
                   (password_question_count s = 2 \<and> coins s (coin_calls s)))
      in (fired, if (str_in ''password'' (lower m) \<and>
                     list_ex (\<lambda>k. str_in k (lower m)) improve_keywords) \<or>
                    password_question_count s \<noteq> 2
                 then s else s\<lparr>coin_calls := Suc (coin_calls s)\<rparr>))"
  by (auto simp: password_trigger_def flip_def Let_def)

lemma phishing_trigger_frame:
  "\<exists>b n. phishing_trigger m s = (b, s\<lparr>coin_calls := n\<rparr>)"
  by (auto simp: phishing_trigger_def flip_def intro: exI [of _ "coin_calls s"])

lemma title_update_frame:
  assumes "\<not> active_missing s"
  shows "\<exists>cs. maybe_update_title_after_first_turn cl model s = Inr (s\<lparr>convos := cs\<rparr>) \<and>
              same_histories (convos s) cs"
proof -
  from present_lookup [OF assms] obtain aid sess
    where a: "active_id s = Some aid" and l: "map_of (convos s) aid = Some sess" by blast
  then have "map_of (convos s) aid \<noteq> None" by simp
  from auto_title_same [OF this, of cl model] obtain cs'
    where "auto_title_if_needed cl model (convos s) aid = Inr cs'" "same_histories (convos s) cs'"
    by blast
  then show ?thesis
    unfolding maybe_update_title_after_first_turn_def
    by (auto simp: a l Let_def intro: exI [of _ "convos s"])
qed


definition improving :: "string \<Rightarrow> bool" where
  "improving m = (str_in ''password'' (lower m) \<and>
                  list_ex (\<lambda>k. str_in k (lower m)) improve_keywords)"

lemma model_turn_effect:
  fixes cl m s
  defines "reply \<equiv> fst (model_reply cl m (append_msg ''user'' m s))"
  defines "fired \<equiv> (improving m \<or> password_question_count s \<ge> 3 \<or>
                      (password_question_count s = 2 \<and> coins s (coin_calls s))) \<and>
                     \<not> in_password_game s"
  shows "\<exists>s' quiz. model_turn cl m s = Inr s' \<and>
      hist s' = hist s @ [(''user'', m), (''assistant'', reply)] @
                (if fired then [(''assistant'', game_msg)] else []) @ quiz \<and>
      set quiz \<subseteq> {(''assistant'', quiz_msg)} \<and>
      password_question_count s' = (if fired then 0 else password_question_count s) \<and>
      in_password_game s' = in_password_game s \<and>
      coins s' = coins s \<and>
      \<not> active_missing s' \<and>
      trace s' = trace s @
        (case cl of None \<Rightarrow> []
         | Some c \<Rightarrow> [Prompted (build_prompt SYSTEM_INSTRUCTION m (hist s @ [(''user'', m)]))])"
proof -
  define s1 where "s1 = append_msg ''user'' m s"
  define s2 where "s2 = snd (model_reply cl m s1)"
  define s3 where "s3 = append_msg ''assistant'' reply s2"
  define s4 where "s4 = snd (password_trigger m s3)"
  define s5 where "s5 = (if fst (password_trigger m s3) \<and> \<not> in_password_game s4
                         then (append_msg ''assistant'' game_msg s4)\<lparr>password_question_count := 0\<rparr>
                         else s4)"
  define s6 where "s6 = snd (phishing_trigger m s5)"
  define s7 where "s7 = (if fst (phishing_trigger m s5)
                         then (append_msg ''assistant'' quiz_msg s6)\<lparr>phishing_question_count := 0\<rparr>
                         else s6)"
  have mt: "model_turn cl m s = maybe_update_title_after_first_turn cl MODEL s7"
    by (simp add: model_turn_def Let_def s1_def s2_def s3_def s4_def s5_def s6_def s7_def
          reply_def split: prod.splits)
  have r: "model_reply cl m s1 = (reply, s2)"
    by (simp add: reply_def s1_def s2_def)
  from model_reply_frame [of cl m s1]
  have f2: "hist s2 = hist s @ [(''user'', m)]"
      "in_password_game s2 = in_password_game s"
      "password_question_count s2 = password_question_count s"
      "coins s2 = coins s" "coin_calls s2 = coin_calls s"
      "trace s2 = trace s @
        (case cl of None \<Rightarrow> []
         | Some c \<Rightarrow> [Prompted (build_prompt SYSTEM_INSTRUCTION m (hist s @ [(''user'', m)]))])"
    by (simp_all add: s2_def s1_def cong: option.case_cong)
  have f3: "hist s3 = hist s @ [(''user'', m), (''assistant'', reply)]"
      "in_password_game s3 = in_password_game s"
      "password_question_count s3 = password_question_count s"
      "coins s3 = coins s" "coin_calls s3 = coin_calls s"
      "trace s3 = trace s2" "\<not> active_missing s3"
    by (simp_all add: s3_def f2 append_msg_not_missing)
  have pt: "fst (password_trigger m s3) \<and> \<not> in_password_game s4 \<longleftrightarrow> fired"
    by (auto simp: password_trigger_eq Let_def f3 fired_def improving_def s4_def)
  have f4: "hist s4 = hist s3" "in_password_game s4 = in_password_game s"
      "password_question_count s4 = password_question_count s"
      "coins s4 = coins s" "trace s4 = trace s2" "\<not> active_missing s4"
    by (simp_all add: s4_def password_trigger_eq Let_def f3)
  have f5: "hist s5 = hist s3 @ (if fired then [(''assistant'', game_msg)] else [])"
      "in_password_game s5 = in_password_game s"
      "password_question_count s5 = (if fired then 0 else password_question_count s)"
      "coins s5 = coins s" "trace s5 = trace s2" "\<not> active_missing s5"
    unfolding s5_def pt by (simp_all add: f4 append_msg_not_missing)
  from phishing_trigger_frame [of m s5] obtain b n
    where ph: "phishing_trigger m s5 = (b, s5\<lparr>coin_calls := n\<rparr>)" by blast
  have f6: "hist s6 = hist s5" "in_password_game s6 = in_password_game s"
      "password_question_count s6 = password_question_count s5"
      "coins s6 = coins s" "trace s6 = trace s2" "\<not> active_missing s6"
    by (simp_all add: s6_def ph f5)
  define quiz where "quiz = (if b then [(''assistant'', quiz_msg)] else [])"
  have f7: "hist s7 = hist s5 @ quiz" "in_password_game s7 = in_password_game s"
      "password_question_count s7 = password_question_count s5"
      "coins s7 = coins s" "trace s7 = trace s2" "\<not> active_missing s7"
    by (simp_all add: s7_def ph quiz_def f6 append_msg_not_missing s6_def [symmetric])
  from title_update_frame [OF f7(6), of cl MODEL] obtain cs
    where tu: "maybe_update_title_after_first_turn cl MODEL s7 = Inr (s7\<lparr>convos := cs\<rparr>)"
      and sh: "same_histories (convos s7) cs" by blast
  from same_histories_state [OF sh f7(6)]
  have f8: "\<not> active_missing (s7\<lparr>convos := cs\<rparr>)" "hist (s7\<lparr>convos := cs\<rparr>) = hist s7" .
  have "set quiz \<subseteq> {(''assistant'', quiz_msg)}" by (cases b) (simp_all add: quiz_def)
  then show ?thesis
    by (intro exI [of _ "s7\<lparr>convos := cs\<rparr>"] exI [of _ quiz])
       (simp add: mt tu f8 f7 f5 f3 f2)
qed


section \<open>The chat turn: properties\<close>


definition counted :: "string \<Rightarrow> session_state \<Rightarrow> session_state" where
  "counted user_msg s =
     (let s1 = heal s;
          s2 = (if str_in ''password'' (lower user_msg)
                then s1\<lparr>password_question_count := password_question_count s1 + 1\<rparr>
                else s1)
      in if str_in ''phishing'' (lower user_msg)
         then s2\<lparr>phishing_question_count := phishing_question_count s2 + 1\<rparr>
         else s2)"

lemma counted_fields [simp]:
  "hist (counted m s) = hist s"
  "in_password_game (counted m s) = in_password_game s"
  "coins (counted m s) = coins s"
  "coin_calls (counted m s) = coin_calls s"
  "trace (counted m s) = trace s"
  "password_question_count (counted m s) =
     (if str_in ''password'' (lower m)
      then password_question_count s + 1 else password_question_count s)"
  "\<not> active_missing (counted m s)"
  by (simp_all add: counted_def Let_def heal_not_missing)










definition fresh_session :: "(nat \<Rightarrow> bool) \<Rightarrow> session_state" where
  "fresh_session cs =
     \<lparr>convos = [(''c0ffee00'', \<lparr>name = ''New Chat'', history = []\<rparr>)],
      active_id = Some ''c0ffee00'',
      in_password_game = False,
      password_game_step = None,
      user_password = None,
      password_question_count = 0,
      phishing_question_count = 0,
      uuids = (\<lambda>n. ''00000000''),
      uuid_calls = 0,
      coins = cs,
      coin_calls = 0,
      trace = []\<rparr>"


























text \<open>A client whose stream answers every prompt with one event.\<close>

definition canned_client :: client where
  "canned_client =
     \<lparr>generate_content = (\<lambda>model contents. None),
      generate_content_stream = (\<lambda>model contents. ([Some ''Phishing is a scam.''], Completed))\<rparr>"

lemma model_turn_prompt:
  "\<exists>s'. model_turn (Some c) m s = Inr s' \<and>
     trace s' = trace s @
       [Prompted (build_prompt SYSTEM_INSTRUCTION m (hist s @ [(''user'', m)]))]"
  using model_turn_effect [of "Some c" m s] by auto

text \<open>
  Claim C8 fails on the code: the user message is appended to the history before the prompt
  is built from that history, so the prompt holds the line of the new message twice. At an
  empty history and the message \<open>What is phishing?\<close> the backend receives the system line,
  two \<open>User:\<close> lines with the message, and the \<open>Tutor:\<close> line.
\<close>

theorem prompt_repeats_new_message:
  "hist (fresh_session (\<lambda>n. False)) = [] \<and>
   map_sum id trace
     (on_chat_input (Some canned_client) ''What is phishing?'' (fresh_session (\<lambda>n. False))) =
     Inr [Prompted (''System: '' @ SYSTEM_INSTRUCTION @
                    ''\<newline>User: What is phishing?'' @
                    ''\<newline>User: What is phishing?'' @
                    ''\<newline>Tutor:'')]"
proof -
  have a: "hist (fresh_session (\<lambda>n. False)) = []" by code_simp
  have b: "map_sum id trace
     (on_chat_input (Some canned_client) ''What is phishing?'' (fresh_session (\<lambda>n. False))) =
     Inr [Prompted (''System: '' @ SYSTEM_INSTRUCTION @
                    ''\<newline>User: What is phishing?'' @
                    ''\<newline>User: What is phishing?'' @
                    ''\<newline>Tutor:'')]"
    by code_simp
  from a b show ?thesis by blast
qed

text \<open>
  Two conversations opened with the same off-topic greeting; the first has been marked, the
  second has just received its redirect.
\<close>

definition two_greetings :: "(string \<times> chat) list" where
  "two_greetings =
     [(''11111111'',
       \<lparr>name = ''Hello There (Not Cybersecurity Related)'',
        history = [(''user'', ''hello there''), (''assistant'', offtopic_msg)]\<rparr>),
      (''22222222'',
       \<lparr>name = ''New Chat'',
        history = [(''user'', ''hello there''), (''assistant'', offtopic_msg)]\<rparr>)]"

text \<open>\<open>mark_offtopic\<close> called twice in succession on the same conversation.\<close>

definition mark_offtopic_twice ::
  "client option \<Rightarrow> string \<Rightarrow> (string \<times> chat) list \<Rightarrow> string
     \<Rightarrow> error + (string \<times> chat) list" where
  "mark_offtopic_twice cl model convos0 session_id =
     (case mark_offtopic cl model convos0 session_id of
        Inl e \<Rightarrow> Inl e
      | Inr convos1 \<Rightarrow> mark_offtopic cl model convos1 session_id)"

text \<open>
  Claim C6 fails on the code: when the suffixed name is taken by another conversation, the
  first call of \<open>mark_offtopic\<close> yields a name that ends in \<open>(2)\<close>, not in the suffix, and a
  second call appends the suffix again.
\<close>

theorem mark_offtopic_twice_appends_twice:
  "map_sum id (map (\<lambda>(k, c). name c))
     (mark_offtopic None MODEL two_greetings ''22222222'') =
     Inr [''Hello There (Not Cybersecurity Related)'',
          ''Hello There (Not Cybersecurity Related) (2)''] \<and>
   map_sum id (map (\<lambda>(k, c). name c))
     (mark_offtopic_twice None MODEL two_greetings ''22222222'') =
     Inr [''Hello There (Not Cybersecurity Related)'',
          ''Hello There (Not Cybersecurity Related) (2) (Not Cybersecurity Related)'']"
proof -
  have a: "map_sum id (map (\<lambda>(k, c). name c))
     (mark_offtopic None MODEL two_greetings ''22222222'') =
     Inr [''Hello There (Not Cybersecurity Related)'',
          ''Hello There (Not Cybersecurity Related) (2)'']"
    by code_simp
  have b: "map_sum id (map (\<lambda>(k, c). name c))
     (mark_offtopic_twice None MODEL two_greetings ''22222222'') =
     Inr [''Hello There (Not Cybersecurity Related)'',
          ''Hello There (Not Cybersecurity Related) (2) (Not Cybersecurity Related)'']"
    by code_simp
  from a b show ?thesis by blast
qed


section \<open>The title fallback: properties\<close>








lemma length_title_from [simp]: "length (title_from p s) = length s"
  by (induction s arbitrary: p) simp_all












end
